theory Spec2Isabelle
  imports Complex_Main "HOL-Library.Monad_Syntax"
begin

section \<open>JavaScript values, errors and promises\<close>

text \<open>
  A thrown exception or a rejected promise is the left injection of a sum, a returned or
  resolved value the right one. \<open>Error msg\<close> is JavaScript's \<^verbatim>\<open>new Error(msg)\<close>
  (the errors of the contract library are of this class too), \<open>ZodError\<close> is what a
  failed schema \<^verbatim>\<open>parse\<close> throws.
\<close>

datatype error = Error string | ZodError

text \<open>
  The untyped values that reach the schemas. \<open>JBigNumber n\<close> is the arbitrary-precision
  integer object of the contract library, \<open>JNumber\<close> a JavaScript number holding an
  integer.
\<close>

datatype jsval = JUndefined | JBoolean bool | JNumber int | JString string | JBigNumber int

type_synonym bytes = string

type_synonym raw_object = "(string \<times> jsval) list"

text \<open>Sequencing of steps that may throw: the first error ends the computation.\<close>

definition and_then :: "error + 'a \<Rightarrow> ('a \<Rightarrow> error + 'b) \<Rightarrow> error + 'b" where
  "and_then r f = (case r of Inl e \<Rightarrow> Inl e | Inr v \<Rightarrow> f v)"

text \<open>
  \<^verbatim>\<open>xs.map(f)\<close> with a callback that may throw: the elements are visited from left to
  right, and the first exception leaves the \<^verbatim>\<open>map\<close> with no array built.
\<close>

fun map_throwing :: "('a \<Rightarrow> error + 'b) \<Rightarrow> 'a list \<Rightarrow> error + 'b list" where
  "map_throwing f [] = Inr []"
| "map_throwing f (x # xs) =
     (case f x of
        Inl e \<Rightarrow> Inl e
      | Inr y \<Rightarrow> (case map_throwing f xs of Inl e \<Rightarrow> Inl e | Inr ys \<Rightarrow> Inr (y # ys)))"

text \<open>\<^verbatim>\<open>xs[i]\<close>: reading an array out of range gives \<^verbatim>\<open>undefined\<close>, here \<open>None\<close>.\<close>

definition array_index :: "'a list \<Rightarrow> nat \<Rightarrow> 'a option" where
  "array_index xs i = (if i < length xs then Some (xs ! i) else None)"

definition js_index :: "jsval list \<Rightarrow> nat \<Rightarrow> jsval" where
  "js_index xs i = (case array_index xs i of None \<Rightarrow> JUndefined | Some v \<Rightarrow> v)"

text \<open>Reading a property of a plain object: a missing key reads as \<^verbatim>\<open>undefined\<close>.\<close>

definition property :: "raw_object \<Rightarrow> string \<Rightarrow> jsval" where
  "property x k = (case map_of x k of None \<Rightarrow> JUndefined | Some v \<Rightarrow> v)"

subsection \<open>Strings\<close>

text \<open>
  Strings are modelled over the ASCII range, where \<^verbatim>\<open>toLowerCase\<close> maps the letters
  \<^verbatim>\<open>A\<close> to \<^verbatim>\<open>Z\<close> to \<^verbatim>\<open>a\<close> to \<^verbatim>\<open>z\<close> and leaves every other character alone.
\<close>

definition toLowerCase_char :: "char \<Rightarrow> char" where
  "toLowerCase_char c =
     (if (65::nat) \<le> of_char c \<and> of_char c \<le> (90::nat) then char_of (of_char c + (32::nat)) else c)"

definition toLowerCase :: "string \<Rightarrow> string" where
  "toLowerCase s = map toLowerCase_char s"

text \<open>
  A value inside a template literal, \<^verbatim>\<open>`${v}`\<close>, for a \<open>v\<close> that is a string or
  \<^verbatim>\<open>undefined\<close>.
\<close>

definition template_literal :: "string option \<Rightarrow> string" where
  "template_literal v = (case v of None \<Rightarrow> ''undefined'' | Some s \<Rightarrow> s)"

text \<open>
  Two strings are equal up to the case of their letters when they have the same length and
  agree position by position once both characters are put in lower case.
\<close>

definition equal_ignoring_case :: "string \<Rightarrow> string \<Rightarrow> bool" where
  "equal_ignoring_case s t = list_all2 (\<lambda>a b. toLowerCase_char a = toLowerCase_char b) s t"

subsection \<open>Numbers in template literals\<close>

text \<open>
  A chain identifier is a JavaScript number holding an integer. Inside a template literal
  such a number is written in decimal, with a leading minus sign when negative. (From
  \<open>10 ^ 21\<close> on JavaScript prints an exponent instead; such a numeral has more than five
  characters in either notation, so it is none of the numerals the switch looks for.)
\<close>

definition digit_char :: "nat \<Rightarrow> char" where
  "digit_char d = char_of (48 + d)"

fun digits_of :: "nat \<Rightarrow> string" where
  "digits_of n = (if n < 10 then [digit_char n] else digits_of (n div 10) @ [digit_char (n mod 10)])"

declare digits_of.simps [simp del]

definition number_toString :: "int \<Rightarrow> string" where
  "number_toString n = (if n < 0 then CHR ''-'' # digits_of (nat (- n)) else digits_of (nat n))"

text \<open>Reading a decimal numeral back, used to show that the printing loses nothing.\<close>

definition read_digits :: "string \<Rightarrow> nat" where
  "read_digits s = foldl (\<lambda>acc c. 10 * acc + (of_char c - 48)) 0 s"

section \<open>The import map of the perpetual-market proxy\<close>

text \<open>
  The two statically imported binding modules,
  \<^verbatim>\<open>./420/PerpsMarketProxy\<close> and \<^verbatim>\<open>./84531-competition/PerpsMarketProxy\<close>.
\<close>

datatype PerpsMarketProxyModule = PerpsMarketProxy420Main | PerpsMarketProxy84531Competition

text \<open>
  \<^verbatim>\<open>importPerpsMarketProxy(chainId: number, preset: string = 'main')\<close>. An omitted
  argument is \<open>None\<close>; the default value takes its place. The switch compares the string
  \<^verbatim>\<open>`${chainId}-${preset}`\<close> with the two keys, in the order of the source.
\<close>

definition importPerpsMarketProxy :: "int \<Rightarrow> string option \<Rightarrow> error + PerpsMarketProxyModule" where
  "importPerpsMarketProxy chainId preset_arg =
     (let preset = (case preset_arg of None \<Rightarrow> ''main'' | Some s \<Rightarrow> s);
          key = number_toString chainId @ ''-'' @ preset
      in if key = ''420-main'' then Inr PerpsMarketProxy420Main
         else if key = ''84531-competition'' then Inr PerpsMarketProxy84531Competition
         else Inl (Error (''Unsupported chain '' @ number_toString chainId @ '' for PerpsMarketProxy'')))"

section \<open>Collateral types\<close>

subsection \<open>Fixed-point decimals\<close>

text \<open>
  A fixed-point decimal of the \<^verbatim>\<open>@synthetixio/wei\<close> package: a scaled integer \<open>bn\<close>
  and the number of implied decimal places.
\<close>

record Wei =
  bn :: int
  decimals :: nat

text \<open>
  Modelled from the spec: \<^verbatim>\<open>wei(x)\<close> of the package \<^verbatim>\<open>@synthetixio/wei\<close>, whose source
  is not part of the repository. The spec calls its result for a decoded integer "a scaled
  integer transformed into a fixed-point decimal value", a fixed-point decimal being "a
  scaled integer representation of a decimal value using 18 implied decimal places".
\<close>

definition wei :: "int \<Rightarrow> Wei" where
  "wei x = \<lparr>bn = x, decimals = 18\<rparr>"

text \<open>
  Modelled from the spec: the decimal value that a fixed-point decimal stands for, the
  scaled integer with the decimal point moved left by the implied places.
\<close>

definition Wei_value :: "Wei \<Rightarrow> rat" where
  "Wei_value w = of_int (bn w) / 10 ^ decimals w"

text \<open>
  Modelled from the spec: \<^verbatim>\<open>w.lt(b)\<close> of the same package for an integer object \<open>b\<close>,
  which is read at the scale of \<open>w\<close>. The source's comment states the test as
  \<^verbatim>\<open>minDelegationD18 < MaxUint256\<close>, the spec as the minimum delegation not being "the
  maximum representable value".
\<close>

definition Wei_lt :: "Wei \<Rightarrow> int \<Rightarrow> bool" where
  "Wei_lt w b = (bn w < b)"

definition MaxUint256 :: int where
  "MaxUint256 = 2 ^ 256 - 1"

subsection \<open>Schemas\<close>

text \<open>
  A schema is a function from an untyped value to the typed one, \<open>None\<close> when the value
  is refused; \<^verbatim>\<open>schema.parse(v)\<close> throws on a refused value.
\<close>

definition parse :: "('v \<Rightarrow> 'a option) \<Rightarrow> 'v \<Rightarrow> error + 'a" where
  "parse schema v = (case schema v of None \<Rightarrow> Inl ZodError | Some a \<Rightarrow> Inr a)"

definition z_boolean :: "jsval \<Rightarrow> bool option" where
  "z_boolean v = (case v of JBoolean b \<Rightarrow> Some b | _ \<Rightarrow> None)"

definition z_string :: "jsval \<Rightarrow> string option" where
  "z_string v = (case v of JString s \<Rightarrow> Some s | _ \<Rightarrow> None)"

definition z_string_startsWith :: "string \<Rightarrow> jsval \<Rightarrow> string option" where
  "z_string_startsWith pre v =
     (case v of JString s \<Rightarrow> if take (length pre) s = pre then Some s else None | _ \<Rightarrow> None)"

text \<open>
  Modelled from the spec: \<^verbatim>\<open>ZodBigNumber\<close> of the package \<^verbatim>\<open>@snx-v3/zod\<close>, which is not
  among the sources. The spec has the loaders decode "a scaled integer": the schema accepts
  the integer objects of the contract library and nothing else.
\<close>

definition ZodBigNumber :: "jsval \<Rightarrow> int option" where
  "ZodBigNumber v = (case v of JBigNumber n \<Rightarrow> Some n | _ \<Rightarrow> None)"

text \<open>\<^verbatim>\<open>ZodBigNumber.transform((x) => wei(x))\<close>\<close>

definition ZodBigNumber_wei :: "jsval \<Rightarrow> Wei option" where
  "ZodBigNumber_wei v = map_option wei (ZodBigNumber v)"

record CollateralConfiguration =
  depositingEnabled :: bool
  issuanceRatioD18 :: Wei
  liquidationRatioD18 :: Wei
  liquidationRewardD18 :: Wei
  oracleNodeId :: string
  tokenAddress :: string
  minDelegationD18 :: Wei

text \<open>
  \<^verbatim>\<open>CollateralConfigurationSchema\<close>: every key of the shape is read from the object and
  checked by its own schema; keys outside the shape are dropped.
\<close>

definition CollateralConfigurationSchema :: "raw_object \<Rightarrow> CollateralConfiguration option" where
  "CollateralConfigurationSchema x = do {
     de \<leftarrow> z_boolean (property x ''depositingEnabled'');
     ir \<leftarrow> ZodBigNumber_wei (property x ''issuanceRatioD18'');
     lr \<leftarrow> ZodBigNumber_wei (property x ''liquidationRatioD18'');
     lw \<leftarrow> ZodBigNumber_wei (property x ''liquidationRewardD18'');
     oi \<leftarrow> z_string (property x ''oracleNodeId'');
     ta \<leftarrow> z_string_startsWith ''0x'' (property x ''tokenAddress'');
     md \<leftarrow> ZodBigNumber_wei (property x ''minDelegationD18'');
     Some \<lparr>depositingEnabled = de, issuanceRatioD18 = ir, liquidationRatioD18 = lr,
           liquidationRewardD18 = lw, oracleNodeId = oi, tokenAddress = ta,
           minDelegationD18 = md\<rparr>
   }"

text \<open>
  \<^verbatim>\<open>CollateralType\<close>, the configuration extended with symbol, display symbol and price.
  The three added fields are filled from array reads, which give \<^verbatim>\<open>undefined\<close> (here
  \<open>None\<close>) out of range.
\<close>

record CollateralType = CollateralConfiguration +
  symbol :: "string option"
  displaySymbol :: "string option"
  price :: "Wei option"

definition SymbolSchema :: "jsval \<Rightarrow> string option" where
  "SymbolSchema = z_string"

definition PriceSchema :: "jsval \<Rightarrow> Wei option" where
  "PriceSchema = ZodBigNumber_wei"

subsection \<open>Contract handles\<close>

text \<open>
  The contract library and the chain behind it are inputs of the model: an interface
  encodes calls and decodes results, a contract handle sends read calls. Each of them may
  throw.
\<close>

record Interface =
  encodeFunctionData :: "string \<Rightarrow> jsval list \<Rightarrow> error + bytes"
  decodeFunctionResult :: "string \<Rightarrow> bytes \<Rightarrow> error + jsval list"

record Call =
  target :: string
  callData :: bytes

record AggregateResult =
  blockNumber :: int
  returnData :: "bytes list"

record Multicall3Type =
  callStatic_aggregate :: "Call list \<Rightarrow> error + AggregateResult"

record CoreProxyType =
  getCollateralConfigurations :: "bool \<Rightarrow> error + raw_object list"
  interface :: Interface
  callStatic_multicall :: "bytes list \<Rightarrow> error + bytes list"

subsection \<open>The loaders\<close>

text \<open>The callback of \<^verbatim>\<open>loadSymbols\<close> that decodes one returned value.\<close>

definition decodeSymbol :: "Interface \<Rightarrow> bytes \<Rightarrow> error + string" where
  "decodeSymbol ERC20Interface b =
     and_then (decodeFunctionResult ERC20Interface ''symbol'' b)
       (\<lambda>r. parse SymbolSchema (js_index r 0))"

definition symbolCalls :: "Interface \<Rightarrow> CollateralConfiguration list \<Rightarrow> error + Call list" where
  "symbolCalls ERC20Interface tokenConfigs =
     map_throwing
       (\<lambda>tokenConfig.
          and_then (encodeFunctionData ERC20Interface ''symbol'' [])
            (\<lambda>d. Inr \<lparr>target = tokenAddress tokenConfig, callData = d\<rparr>))
       tokenConfigs"

definition loadSymbols ::
  "Interface \<Rightarrow> Multicall3Type \<Rightarrow> CollateralConfiguration list \<Rightarrow> error + string list" where
  "loadSymbols ERC20Interface Multicall3 tokenConfigs =
     and_then (symbolCalls ERC20Interface tokenConfigs) (\<lambda>calls.
     and_then (callStatic_aggregate Multicall3 calls) (\<lambda>multicallResult.
     map_throwing (decodeSymbol ERC20Interface) (returnData multicallResult)))"

text \<open>
  The callback of \<^verbatim>\<open>loadPrices\<close> that decodes one returned value: first the value
  \<^verbatim>\<open>decoded\<close>, element 0 of what the interface decodes, then its parse.
\<close>

definition decodedPrice :: "CoreProxyType \<Rightarrow> bytes \<Rightarrow> error + jsval" where
  "decodedPrice CoreProxy b =
     and_then (decodeFunctionResult (interface CoreProxy) ''getCollateralPrice'' b)
       (\<lambda>r. Inr (js_index r 0))"

definition decodePrice :: "CoreProxyType \<Rightarrow> bytes \<Rightarrow> error + Wei" where
  "decodePrice CoreProxy b =
     and_then (decodedPrice CoreProxy b) (\<lambda>decoded. parse PriceSchema decoded)"

definition priceCalls :: "CoreProxyType \<Rightarrow> CollateralConfiguration list \<Rightarrow> error + bytes list" where
  "priceCalls CoreProxy tokenConfigs =
     map_throwing
       (\<lambda>x. encodeFunctionData (interface CoreProxy) ''getCollateralPrice''
              [JString (tokenAddress x)])
       tokenConfigs"

definition loadPrices :: "CoreProxyType \<Rightarrow> CollateralConfiguration list \<Rightarrow> error + Wei list" where
  "loadPrices CoreProxy tokenConfigs =
     and_then (priceCalls CoreProxy tokenConfigs) (\<lambda>calls.
     and_then (callStatic_multicall CoreProxy calls) (\<lambda>multicallResult.
     map_throwing (decodePrice CoreProxy) multicallResult))"

text \<open>
  \<^verbatim>\<open>Promise.all\<close> of two promises: it resolves to both values, and rejects as soon as
  one of them rejects. When both reject, the error is that of the promise that rejected
  first, which the flag \<open>firstRejectsFirst\<close> tells.
\<close>

definition Promise_all :: "bool \<Rightarrow> error + 'a \<Rightarrow> error + 'b \<Rightarrow> error + ('a \<times> 'b)" where
  "Promise_all firstRejectsFirst a b =
     (case a of
        Inr x \<Rightarrow> (case b of Inr y \<Rightarrow> Inr (x, y) | Inl e \<Rightarrow> Inl e)
      | Inl e1 \<Rightarrow> (case b of Inr y \<Rightarrow> Inl e1 | Inl e2 \<Rightarrow> Inl (if firstRejectsFirst then e1 else e2)))"

text \<open>The join that ends \<^verbatim>\<open>loadCollateralTypes\<close>: \<^verbatim>\<open>tokenConfigs.map((config, i) => ...)\<close>.\<close>

definition joinCollateralType ::
  "string list \<Rightarrow> Wei list \<Rightarrow> nat \<times> CollateralConfiguration \<Rightarrow> CollateralType" where
  "joinCollateralType symbols prices ic =
     (case ic of (i, config) \<Rightarrow>
        \<lparr>depositingEnabled = depositingEnabled config,
         issuanceRatioD18 = issuanceRatioD18 config,
         liquidationRatioD18 = liquidationRatioD18 config,
         liquidationRewardD18 = liquidationRewardD18 config,
         oracleNodeId = oracleNodeId config,
         tokenAddress = tokenAddress config,
         minDelegationD18 = minDelegationD18 config,
         symbol = array_index symbols i,
         displaySymbol =
           (if array_index symbols i = Some ''WETH'' then Some ''ETH'' else array_index symbols i),
         price = array_index prices i\<rparr>)"

definition joinCollateralTypes ::
  "CollateralConfiguration list \<Rightarrow> string list \<Rightarrow> Wei list \<Rightarrow> CollateralType list" where
  "joinCollateralTypes tokenConfigs symbols prices =
     map (joinCollateralType symbols prices) (zip [0 ..< length tokenConfigs] tokenConfigs)"

definition loadCollateralTypes ::
  "Interface \<Rightarrow> bool \<Rightarrow> CoreProxyType \<Rightarrow> Multicall3Type \<Rightarrow> error + CollateralType list" where
  "loadCollateralTypes ERC20Interface symbolsRejectFirst CoreProxy Multicall3 =
     (let hideDisabled = False in
      and_then (getCollateralConfigurations CoreProxy hideDisabled) (\<lambda>tokenConfigsRaw.
      and_then (map_throwing (parse CollateralConfigurationSchema) tokenConfigsRaw) (\<lambda>tokenConfigs.
      and_then (Promise_all symbolsRejectFirst
                  (loadSymbols ERC20Interface Multicall3 tokenConfigs)
                  (loadPrices CoreProxy tokenConfigs))
        (\<lambda>sp. case sp of (symbols, prices) \<Rightarrow>
           Inr (joinCollateralTypes tokenConfigs symbols prices)))))"

subsection \<open>The hooks\<close>

text \<open>The predicate of the default filter of \<^verbatim>\<open>useCollateralTypes\<close>.\<close>

definition delegationOn :: "CollateralType \<Rightarrow> bool" where
  "delegationOn x =
     (if symbol x = Some ''sUSD'' \<or> symbol x = Some ''snxUSD'' then False
      else Wei_lt (minDelegationD18 x) MaxUint256)"

text \<open>
  The query function of \<^verbatim>\<open>useCollateralTypes(includeDelegationOff = false)\<close>. A contract
  handle that is not there yet is \<open>None\<close>.
\<close>

definition useCollateralTypes_queryFn ::
  "Interface \<Rightarrow> bool \<Rightarrow> CoreProxyType option \<Rightarrow> Multicall3Type option \<Rightarrow> bool
     \<Rightarrow> error + CollateralType list" where
  "useCollateralTypes_queryFn ERC20Interface symbolsRejectFirst CoreProxy Multicall3 includeDelegationOff =
     (case CoreProxy of
        None \<Rightarrow> Inl (Error ''Query should not be enabled when contracts missing'')
      | Some cp \<Rightarrow>
          (case Multicall3 of
             None \<Rightarrow> Inl (Error ''Query should not be enabled when contracts missing'')
           | Some mc \<Rightarrow>
               and_then (loadCollateralTypes ERC20Interface symbolsRejectFirst cp mc)
                 (\<lambda>collateralTypes.
                    if includeDelegationOff then Inr collateralTypes
                    else Inr (filter delegationOn collateralTypes))))"

text \<open>
  The memoised \<^verbatim>\<open>data\<close> of \<^verbatim>\<open>useCollateralType(collateralSymbol?)\<close>. Its first argument
  is the \<^verbatim>\<open>data\<close> of \<^verbatim>\<open>useCollateralTypes()\<close>, \<open>None\<close> when the query has none; an
  omitted symbol is \<open>None\<close>. The empty string is falsy, as \<^verbatim>\<open>undefined\<close> is.
\<close>

definition falsy :: "string option \<Rightarrow> bool" where
  "falsy s = (s = None \<or> s = Some [])"

definition useCollateralType_data ::
  "CollateralType list option \<Rightarrow> string option \<Rightarrow> CollateralType option" where
  "useCollateralType_data collateralTypes collateralSymbol =
     (case collateralTypes of
        None \<Rightarrow> None
      | Some cts \<Rightarrow>
          if length cts = 0 then None
          else if falsy collateralSymbol then array_index cts 0
          else find (\<lambda>collateral.
                       toLowerCase (template_literal (symbol collateral))
                         = toLowerCase (template_literal collateralSymbol)) cts)"

section \<open>Sample chain data\<close>

text \<open>
  A small deployment on which the theorems below are run: three tokens, the raw
  configuration the core contract returns for each, and contract handles that answer every
  call of a batch in order. The price call data of a token is its address, and so is the
  data that its symbol call returns; the interfaces decode an address to the price and the
  symbol of that token. The token \<^verbatim>\<open>0xD4\<close> has a symbol that does not decode, the token
  \<^verbatim>\<open>0xE5\<close> a price that is not an integer object.
\<close>

definition sample_raw :: "string \<Rightarrow> int \<Rightarrow> raw_object" where
  "sample_raw address minDelegation =
     [(''depositingEnabled'', JBoolean True),
      (''issuanceRatioD18'', JBigNumber 4000000000000000000),
      (''liquidationRatioD18'', JBigNumber 1500000000000000000),
      (''liquidationRewardD18'', JBigNumber 1000000000000000000),
      (''oracleNodeId'', JString ''0x6f''),
      (''tokenAddress'', JString address),
      (''minDelegationD18'', JBigNumber minDelegation)]"

definition sample_raws :: "raw_object list" where
  "sample_raws =
     [sample_raw ''0xA1'' 100, sample_raw ''0xB2'' 100, sample_raw ''0xC3'' MaxUint256]"

definition sample_ERC20Interface :: Interface where
  "sample_ERC20Interface =
     \<lparr>encodeFunctionData = (\<lambda>name args.
        if name = ''symbol'' \<and> args = [] then Inr ''0x95d89b41''
        else Inl (Error ''no matching function'')),
      decodeFunctionResult = (\<lambda>name b.
        if b = ''0xA1'' then Inr [JString ''WETH'']
        else if b = ''0xB2'' then Inr [JString ''sUSD'']
        else if b = ''0xC3'' then Inr [JString ''SNX'']
        else if b = ''0xE5'' then Inr [JString ''DAI'']
        else Inl (Error ''data out-of-bounds''))\<rparr>"

definition sample_Multicall3 :: Multicall3Type where
  "sample_Multicall3 =
     \<lparr>callStatic_aggregate = (\<lambda>calls. Inr \<lparr>blockNumber = 1, returnData = map target calls\<rparr>)\<rparr>"

definition sample_CoreProxy :: "raw_object list \<Rightarrow> CoreProxyType" where
  "sample_CoreProxy raws =
     \<lparr>getCollateralConfigurations = (\<lambda>hideDisabled. Inr raws),
      interface =
        \<lparr>encodeFunctionData = (\<lambda>name args.
           case args of [JString a] \<Rightarrow> Inr a | _ \<Rightarrow> Inl (Error ''types/values length mismatch'')),
         decodeFunctionResult = (\<lambda>name b.
           if b = ''0xA1'' then Inr [JBigNumber 2000000000000000000000]
           else if b = ''0xB2'' then Inr [JBigNumber 1000000000000000000]
           else if b = ''0xC3'' then Inr [JBigNumber 2500000000000000000]
           else if b = ''0xD4'' then Inr [JBigNumber 1]
           else if b = ''0xE5'' then Inr [JString ''1'']
           else Inl (Error ''data out-of-bounds''))\<rparr>,
      callStatic_multicall = (\<lambda>calls. Inr calls)\<rparr>"

definition sample_config :: "string \<Rightarrow> int \<Rightarrow> CollateralConfiguration" where
  "sample_config address minDelegation =
     \<lparr>depositingEnabled = True,
      issuanceRatioD18 = wei 4000000000000000000,
      liquidationRatioD18 = wei 1500000000000000000,
      liquidationRewardD18 = wei 1000000000000000000,
      oracleNodeId = ''0x6f'',
      tokenAddress = address,
      minDelegationD18 = wei minDelegation\<rparr>"

definition sample_type :: "string \<Rightarrow> int \<Rightarrow> CollateralType" where
  "sample_type name minDelegation =
     \<lparr>depositingEnabled = True,
      issuanceRatioD18 = wei 4000000000000000000,
      liquidationRatioD18 = wei 1500000000000000000,
      liquidationRewardD18 = wei 1000000000000000000,
      oracleNodeId = ''0x6f'',
      tokenAddress = ''0xA1'',
      minDelegationD18 = wei minDelegation,
      symbol = Some name,
      displaySymbol = Some name,
      price = Some (wei 1000000000000000000)\<rparr>"

section \<open>Properties of the helpers\<close>

lemma digit_char_not_minus: "d < 10 \<Longrightarrow> digit_char d \<noteq> CHR ''-''"
proof -
  assume "d < 10"
  then have "d \<in> {0, 1, 2, 3, 4, 5, 6, 7, 8, 9}" by auto
  then show ?thesis by (auto simp: digit_char_def char_of_eq_iff)
qed

lemma digits_of_no_minus: "CHR ''-'' \<notin> set (digits_of n)"
proof (induction n rule: digits_of.induct)
  case (1 n)
  show ?case
  proof (cases "n < 10")
    case True
    then show ?thesis
      using digit_char_not_minus [of n] by (subst digits_of.simps) auto
  next
    case False
    have "n mod 10 < 10" by simp
    then have "digit_char (n mod 10) \<noteq> CHR ''-''" by (rule digit_char_not_minus)
    with False 1 show ?thesis
      by (subst digits_of.simps) auto
  qed
qed

lemma of_char_digit_char: "d < 10 \<Longrightarrow> (of_char (digit_char d) :: nat) = 48 + d"
  by (simp add: digit_char_def)

lemma read_digits_snoc: "read_digits (s @ [c]) = 10 * read_digits s + (of_char c - 48)"
  by (simp add: read_digits_def)

lemma read_digits_of: "read_digits (digits_of n) = n"
proof (induction n rule: digits_of.induct)
  case (1 n)
  show ?case
  proof (cases "n < 10")
    case True
    then show ?thesis
      by (subst digits_of.simps) (simp add: read_digits_def of_char_digit_char)
  next
    case False
    have "n mod 10 < 10" by simp
    then have "(of_char (digit_char (n mod 10)) :: nat) = 48 + n mod 10"
      by (rule of_char_digit_char)
    with False 1 show ?thesis
      by (subst digits_of.simps) (simp add: read_digits_snoc)
  qed
qed

lemma split_at_separator:
  "c \<notin> set a \<Longrightarrow> c \<notin> set a' \<Longrightarrow> a @ c # b = a' @ c # b' \<Longrightarrow> a = a' \<and> b = b'"
proof (induction a arbitrary: a')
  case Nil
  then show ?case by (cases a') auto
next
  case (Cons x a)
  then show ?case by (cases a') auto
qed

lemma digits_of_nonempty: "digits_of n \<noteq> []"
  by (subst digits_of.simps) simp

lemma digits_of_hd_not_minus: "hd (digits_of n) \<noteq> CHR ''-''"
  using digits_of_no_minus [of n] digits_of_nonempty [of n]
  by (cases "digits_of n") auto

lemma digits_of_inj: "digits_of m = digits_of n \<Longrightarrow> m = n"
  by (metis read_digits_of)

lemma key_eq_iff:
  "number_toString chainId @ ''-'' @ preset = digits_of m @ ''-'' @ p0
     \<longleftrightarrow> chainId = int m \<and> preset = p0"
proof
  assume k: "number_toString chainId @ ''-'' @ preset = digits_of m @ ''-'' @ p0"
  show "chainId = int m \<and> preset = p0"
  proof (cases "chainId < 0")
    case True
    with k have "CHR ''-'' # digits_of (nat (- chainId)) @ ''-'' @ preset = digits_of m @ ''-'' @ p0"
      by (simp add: number_toString_def)
    then have "hd (digits_of m @ ''-'' @ p0) = CHR ''-''"
      by (metis list.sel(1))
    then have "hd (digits_of m) = CHR ''-''"
      using digits_of_nonempty [of m] by simp
    then show ?thesis
      using digits_of_hd_not_minus [of m] by simp
  next
    case False
    with k have "digits_of (nat chainId) @ CHR ''-'' # preset = digits_of m @ CHR ''-'' # p0"
      by (simp add: number_toString_def)
    then have "digits_of (nat chainId) = digits_of m \<and> preset = p0"
      by (rule split_at_separator [OF digits_of_no_minus digits_of_no_minus])
    then have "nat chainId = m" and "preset = p0"
      by (auto dest: digits_of_inj)
    with False show ?thesis by auto
  qed
next
  assume "chainId = int m \<and> preset = p0"
  then show "number_toString chainId @ ''-'' @ preset = digits_of m @ ''-'' @ p0"
    by (simp add: number_toString_def)
qed

lemma digits_of_420: "digits_of 420 = ''420''"
  by (simp add: digits_of.simps digit_char_def char_of_eq_iff)

lemma digits_of_84531: "digits_of 84531 = ''84531''"
  by (simp add: digits_of.simps digit_char_def char_of_eq_iff)

lemma key_420_main:
  "number_toString chainId @ ''-'' @ preset = ''420-main'' \<longleftrightarrow> chainId = 420 \<and> preset = ''main''"
  using key_eq_iff [of chainId preset 420 "''main''"] by (simp add: digits_of_420)

lemma key_84531_competition:
  "number_toString chainId @ ''-'' @ preset = ''84531-competition''
     \<longleftrightarrow> chainId = 84531 \<and> preset = ''competition''"
  using key_eq_iff [of chainId preset 84531 "''competition''"] by (simp add: digits_of_84531)

subsection \<open>Errors and batches\<close>

lemma and_then_Inl: "and_then (Inl e) f = Inl e"
  by (simp add: and_then_def)

lemma and_then_Inr: "and_then (Inr v) f = f v"
  by (simp add: and_then_def)

lemma isl_and_then: "isl r \<Longrightarrow> isl (and_then r f)"
  by (cases r) (simp_all add: and_then_def)

lemma isl_map_throwing: "isl (map_throwing f xs) \<longleftrightarrow> (\<exists>x\<in>set xs. isl (f x))"
  by (induction xs) (auto split: sum.splits)

lemma isl_Promise_all: "isl (Promise_all r a b) \<longleftrightarrow> isl a \<or> isl b"
  by (cases a; cases b) (simp_all add: Promise_all_def)

subsection \<open>The loaders\<close>

lemma isl_loadSymbols:
  assumes "symbolCalls erc tcs = Inr calls"
    and "callStatic_aggregate mc calls = Inr res"
    and "b \<in> set (returnData res)"
    and "isl (decodeSymbol erc b)"
  shows "isl (loadSymbols erc mc tcs)"
  using assms by (auto simp add: loadSymbols_def and_then_Inr isl_map_throwing)

lemma isl_loadPrices:
  assumes "priceCalls cp tcs = Inr calls"
    and "callStatic_multicall cp calls = Inr rs"
    and "b \<in> set rs"
    and "isl (decodePrice cp b)"
  shows "isl (loadPrices cp tcs)"
  using assms by (auto simp add: loadPrices_def and_then_Inr isl_map_throwing)

lemma isl_loadCollateralTypes_schema:
  assumes "getCollateralConfigurations cp False = Inr raws"
    and "x \<in> set raws"
    and "isl (parse CollateralConfigurationSchema x)"
  shows "isl (loadCollateralTypes erc race cp mc)"
proof -
  have "isl (map_throwing (parse CollateralConfigurationSchema) raws)"
    using assms(2,3) by (auto simp add: isl_map_throwing)
  then show ?thesis
    using assms(1) by (simp add: loadCollateralTypes_def and_then_Inr isl_and_then)
qed

lemma isl_loadCollateralTypes_batch:
  assumes "getCollateralConfigurations cp False = Inr raws"
    and "map_throwing (parse CollateralConfigurationSchema) raws = Inr tcs"
    and "isl (loadSymbols erc mc tcs) \<or> isl (loadPrices cp tcs)"
  shows "isl (loadCollateralTypes erc race cp mc)"
  using assms by (simp add: loadCollateralTypes_def and_then_Inr isl_and_then isl_Promise_all)

lemma isl_queryFn:
  "isl (loadCollateralTypes erc race cp mc) \<Longrightarrow>
     isl (useCollateralTypes_queryFn erc race (Some cp) (Some mc) includeDelegationOff)"
  by (simp add: useCollateralTypes_queryFn_def isl_and_then)

lemma queryFn_loaded:
  "loadCollateralTypes erc race cp mc = Inr cts \<Longrightarrow>
     useCollateralTypes_queryFn erc race (Some cp) (Some mc) includeDelegationOff
       = Inr (if includeDelegationOff then cts else filter delegationOn cts)"
  by (simp add: useCollateralTypes_queryFn_def and_then_Inr)

lemma map_throwing_decodePrice:
  "map (decodedPrice cp) rs = map (\<lambda>n. Inr (JBigNumber n)) ns \<Longrightarrow>
     map_throwing (decodePrice cp) rs = Inr (map wei ns)"
proof (induction rs arbitrary: ns)
  case Nil
  then show ?case by simp
next
  case (Cons b rs)
  then obtain n ns' where ns: "ns = n # ns'" by (cases ns) auto
  with Cons.prems have d: "decodedPrice cp b = Inr (JBigNumber n)"
    and rest: "map (decodedPrice cp) rs = map (\<lambda>n. Inr (JBigNumber n)) ns'"
    by auto
  have "decodePrice cp b = Inr (wei n)"
    by (simp add: decodePrice_def d and_then_Inr parse_def PriceSchema_def ZodBigNumber_wei_def
        ZodBigNumber_def)
  with Cons.IH [OF rest] ns show ?case by simp
qed

lemma Wei_value_wei: "Wei_value (wei n) = of_int n / 10 ^ 18"
  by (simp add: Wei_value_def wei_def)

lemma length_joinCollateralTypes:
  "length (joinCollateralTypes tokenConfigs symbols prices) = length tokenConfigs"
  by (simp add: joinCollateralTypes_def)

lemma nth_joinCollateralTypes:
  "i < length tokenConfigs \<Longrightarrow>
     joinCollateralTypes tokenConfigs symbols prices ! i
       = joinCollateralType symbols prices (i, tokenConfigs ! i)"
  by (simp add: joinCollateralTypes_def)

subsection \<open>The selector\<close>

lemma toLowerCase_eq_iff: "toLowerCase s = toLowerCase t \<longleftrightarrow> equal_ignoring_case s t"
  unfolding toLowerCase_def equal_ignoring_case_def
proof (induction s arbitrary: t)
  case Nil
  then show ?case by auto
next
  case (Cons a s)
  then show ?case by (cases t) auto
qed

lemma selector_nonfalsy:
  assumes "cts \<noteq> []" and "s \<noteq> []"
  shows "useCollateralType_data (Some cts) (Some s)
           = find (\<lambda>c. equal_ignoring_case (template_literal (symbol c)) s) cts"
  using assms
  by (simp add: useCollateralType_data_def falsy_def template_literal_def toLowerCase_eq_iff)

lemma selector_falsy:
  assumes "cts \<noteq> []" and "falsy cs"
  shows "useCollateralType_data (Some cts) cs = Some (cts ! 0)"
  using assms by (simp add: useCollateralType_data_def array_index_def)

subsection \<open>The sample chain data\<close>

lemmas sample_defs =
  sample_CoreProxy_def sample_raws_def sample_raw_def sample_Multicall3_def
  sample_ERC20Interface_def sample_config_def sample_type_def

lemmas loader_defs =
  loadCollateralTypes_def and_then_def parse_def CollateralConfigurationSchema_def property_def
  z_boolean_def z_string_def z_string_startsWith_def ZodBigNumber_wei_def ZodBigNumber_def
  Promise_all_def loadSymbols_def loadPrices_def symbolCalls_def priceCalls_def
  decodeSymbol_def decodedPrice_def decodePrice_def SymbolSchema_def PriceSchema_def js_index_def array_index_def

lemma sample_loaded:
  "loadCollateralTypes sample_ERC20Interface race (sample_CoreProxy sample_raws) sample_Multicall3
     = Inr (joinCollateralTypes
         [sample_config ''0xA1'' 100, sample_config ''0xB2'' 100, sample_config ''0xC3'' MaxUint256]
         [''WETH'', ''sUSD'', ''SNX'']
         [wei 2000000000000000000000, wei 1000000000000000000, wei 2500000000000000000])"
  by (simp add: loader_defs sample_defs)

lemma sample_joined:
  "joinCollateralTypes
     [sample_config ''0xA1'' 100, sample_config ''0xB2'' 100, sample_config ''0xC3'' MaxUint256]
     [''WETH'', ''sUSD'', ''SNX'']
     [wei 2000000000000000000000, wei 1000000000000000000, wei 2500000000000000000]
   = [(sample_type ''WETH'' 100)
        \<lparr>displaySymbol := Some ''ETH'', price := Some (wei 2000000000000000000000)\<rparr>,
      (sample_type ''sUSD'' 100)\<lparr>tokenAddress := ''0xB2''\<rparr>,
      (sample_type ''SNX'' MaxUint256)
        \<lparr>tokenAddress := ''0xC3'', price := Some (wei 2500000000000000000)\<rparr>]"
  by (simp add: joinCollateralTypes_def joinCollateralType_def array_index_def sample_defs
      upt_rec [of 0] upt_rec [of 1] upt_rec [of 2] upt_rec [of 3])

lemma sample_loaded_types:
  "loadCollateralTypes sample_ERC20Interface race (sample_CoreProxy sample_raws) sample_Multicall3
     = Inr [(sample_type ''WETH'' 100)
              \<lparr>displaySymbol := Some ''ETH'', price := Some (wei 2000000000000000000000)\<rparr>,
            (sample_type ''sUSD'' 100)\<lparr>tokenAddress := ''0xB2''\<rparr>,
            (sample_type ''SNX'' MaxUint256)
              \<lparr>tokenAddress := ''0xC3'', price := Some (wei 2500000000000000000)\<rparr>]"
  by (simp only: sample_loaded sample_joined)

lemma char_eq_char_of_iff: "c = char_of n \<longleftrightarrow> take_bit 8 n = of_char c"
  using char_of_eq_iff [of n c] by auto

lemma sample_names:
  "equal_ignoring_case (template_literal (symbol (sample_type ''snx'' 2))) ''SnX''"
  "\<not> equal_ignoring_case (template_literal (symbol (sample_type ''WETH'' 1))) ''SnX''"
  "\<not> equal_ignoring_case (template_literal (symbol (sample_type ''WETH'' 1))) ''DAI''"
  "\<not> equal_ignoring_case (template_literal (symbol (sample_type ''snx'' 2))) ''DAI''"
  by (simp_all add: equal_ignoring_case_def template_literal_def sample_type_def
      toLowerCase_char_def char_of_eq_iff char_eq_char_of_iff)

lemma sample_names_more:
  "\<not> equal_ignoring_case (template_literal (symbol (sample_type ''SNX'' 3))) ''DAI''"
  "equal_ignoring_case (template_literal (symbol (sample_type ''SNX'' 3))) ''SnX''"
  by (simp_all add: equal_ignoring_case_def template_literal_def sample_type_def
      toLowerCase_char_def char_of_eq_iff char_eq_char_of_iff)

section \<open>The import map\<close>

text \<open>
  Claim C3. For every chain identifier and preset, \<open>importPerpsMarketProxy\<close> resolves to
  the binding module of chain 420 when the pair is (420, main), to the one of chain 84531
  when the pair is (84531, competition), and throws an error for every other pair: there is
  no pair for which it returns anything else.
\<close>

theorem importPerpsMarketProxy_resolves_or_throws:
  "importPerpsMarketProxy chainId (Some preset) =
     (if chainId = 420 \<and> preset = ''main'' then Inr PerpsMarketProxy420Main
      else if chainId = 84531 \<and> preset = ''competition'' then Inr PerpsMarketProxy84531Competition
      else Inl (Error (''Unsupported chain '' @ number_toString chainId @ '' for PerpsMarketProxy'')))"
  unfolding importPerpsMarketProxy_def Let_def option.case key_420_main key_84531_competition
  by (rule refl)

theorem importPerpsMarketProxy_resolves_or_throws_witness:
  "importPerpsMarketProxy 420 (Some ''main'') = Inr PerpsMarketProxy420Main
   \<and> importPerpsMarketProxy 84531 (Some ''competition'') = Inr PerpsMarketProxy84531Competition
   \<and> importPerpsMarketProxy 420 (Some ''competition'')
       = Inl (Error ''Unsupported chain 420 for PerpsMarketProxy'')
   \<and> importPerpsMarketProxy 84531 (Some ''main'')
       = Inl (Error ''Unsupported chain 84531 for PerpsMarketProxy'')
   \<and> importPerpsMarketProxy 1 (Some ''main'')
       = Inl (Error ''Unsupported chain 1 for PerpsMarketProxy'')
   \<and> importPerpsMarketProxy (- 420) (Some ''main'')
       = Inl (Error ''Unsupported chain -420 for PerpsMarketProxy'')"
  using importPerpsMarketProxy_resolves_or_throws [of 420 "''main''"]
    importPerpsMarketProxy_resolves_or_throws [of 84531 "''competition''"]
    importPerpsMarketProxy_resolves_or_throws [of 420 "''competition''"]
    importPerpsMarketProxy_resolves_or_throws [of 84531 "''main''"]
    importPerpsMarketProxy_resolves_or_throws [of 1 "''main''"]
    importPerpsMarketProxy_resolves_or_throws [of "- 420" "''main''"]
  by (simp add: number_toString_def digits_of.simps digit_char_def char_of_eq_iff)

text \<open>
  Claim C10. With the preset omitted, \<open>importPerpsMarketProxy\<close> behaves as with the
  preset main on every chain identifier; for chain 420 it resolves to the binding module
  of 420 and main.
\<close>

theorem importPerpsMarketProxy_default_preset:
  "importPerpsMarketProxy chainId None = importPerpsMarketProxy chainId (Some ''main'')
   \<and> importPerpsMarketProxy 420 None = Inr PerpsMarketProxy420Main"
  by (simp add: importPerpsMarketProxy_def number_toString_def digits_of_420)

section \<open>The join\<close>

text \<open>
  Claim C1. For every list of parsed configurations and every list of symbols and of
  prices of the same length, the join of \<open>loadCollateralTypes\<close> gives one record for each
  configuration, in the order of the configurations; the record at index \<open>i\<close> has the
  seven fields of the configuration at index \<open>i\<close> unchanged, the symbol at index \<open>i\<close>
  and the price at index \<open>i\<close>.
\<close>

theorem join_by_index:
  assumes "length symbols = length tokenConfigs"
    and "length prices = length tokenConfigs"
    and "i < length tokenConfigs"
  shows "length (joinCollateralTypes tokenConfigs symbols prices) = length tokenConfigs
       \<and> depositingEnabled (joinCollateralTypes tokenConfigs symbols prices ! i)
           = depositingEnabled (tokenConfigs ! i)
       \<and> issuanceRatioD18 (joinCollateralTypes tokenConfigs symbols prices ! i)
           = issuanceRatioD18 (tokenConfigs ! i)
       \<and> liquidationRatioD18 (joinCollateralTypes tokenConfigs symbols prices ! i)
           = liquidationRatioD18 (tokenConfigs ! i)
       \<and> liquidationRewardD18 (joinCollateralTypes tokenConfigs symbols prices ! i)
           = liquidationRewardD18 (tokenConfigs ! i)
       \<and> oracleNodeId (joinCollateralTypes tokenConfigs symbols prices ! i)
           = oracleNodeId (tokenConfigs ! i)
       \<and> tokenAddress (joinCollateralTypes tokenConfigs symbols prices ! i)
           = tokenAddress (tokenConfigs ! i)
       \<and> minDelegationD18 (joinCollateralTypes tokenConfigs symbols prices ! i)
           = minDelegationD18 (tokenConfigs ! i)
       \<and> symbol (joinCollateralTypes tokenConfigs symbols prices ! i) = Some (symbols ! i)
       \<and> price (joinCollateralTypes tokenConfigs symbols prices ! i) = Some (prices ! i)"
  using assms
  by (simp add: length_joinCollateralTypes nth_joinCollateralTypes joinCollateralType_def
      array_index_def)

theorem join_by_index_witness:
  "length (joinCollateralTypes [sample_config ''0xA1'' 100, sample_config ''0xC3'' 7]
             [''WETH'', ''SNX''] [wei 2000, wei 3]) = 2
   \<and> tokenAddress (joinCollateralTypes [sample_config ''0xA1'' 100, sample_config ''0xC3'' 7]
             [''WETH'', ''SNX''] [wei 2000, wei 3] ! 1) = ''0xC3''
   \<and> minDelegationD18 (joinCollateralTypes [sample_config ''0xA1'' 100, sample_config ''0xC3'' 7]
             [''WETH'', ''SNX''] [wei 2000, wei 3] ! 1) = wei 7
   \<and> symbol (joinCollateralTypes [sample_config ''0xA1'' 100, sample_config ''0xC3'' 7]
             [''WETH'', ''SNX''] [wei 2000, wei 3] ! 1) = Some ''SNX''
   \<and> price (joinCollateralTypes [sample_config ''0xA1'' 100, sample_config ''0xC3'' 7]
             [''WETH'', ''SNX''] [wei 2000, wei 3] ! 1) = Some (wei 3)"
  using join_by_index
    [of "[''WETH'', ''SNX'']" "[sample_config ''0xA1'' 100, sample_config ''0xC3'' 7]"
        "[wei 2000, wei 3]" 1]
  by (simp add: sample_config_def)

text \<open>
  Claim C6. In the joined record at index \<open>i\<close> the symbol is the symbol at index \<open>i\<close>
  as it was loaded, never rewritten; the display symbol is \<^verbatim>\<open>ETH\<close> when that symbol is
  exactly \<^verbatim>\<open>WETH\<close> and the symbol itself in every other case.
\<close>

theorem displaySymbol_renames_WETH_only:
  assumes "i < length tokenConfigs" and "i < length symbols"
  shows "symbol (joinCollateralTypes tokenConfigs symbols prices ! i) = Some (symbols ! i)
       \<and> displaySymbol (joinCollateralTypes tokenConfigs symbols prices ! i)
           = Some (if symbols ! i = ''WETH'' then ''ETH'' else symbols ! i)"
  using assms
  by (simp add: nth_joinCollateralTypes joinCollateralType_def array_index_def)

theorem displaySymbol_renames_WETH_only_witness:
  "symbol (joinCollateralTypes [sample_config ''0xA1'' 100, sample_config ''0xC3'' 7,
             sample_config ''0xF6'' 7]
             [''WETH'', ''SNX'', ''weth''] [wei 2000, wei 3, wei 4] ! 0) = Some ''WETH''
   \<and> displaySymbol (joinCollateralTypes [sample_config ''0xA1'' 100, sample_config ''0xC3'' 7,
             sample_config ''0xF6'' 7]
             [''WETH'', ''SNX'', ''weth''] [wei 2000, wei 3, wei 4] ! 0) = Some ''ETH''
   \<and> displaySymbol (joinCollateralTypes [sample_config ''0xA1'' 100, sample_config ''0xC3'' 7,
             sample_config ''0xF6'' 7]
             [''WETH'', ''SNX'', ''weth''] [wei 2000, wei 3, wei 4] ! 1) = Some ''SNX''
   \<and> displaySymbol (joinCollateralTypes [sample_config ''0xA1'' 100, sample_config ''0xC3'' 7,
             sample_config ''0xF6'' 7]
             [''WETH'', ''SNX'', ''weth''] [wei 2000, wei 3, wei 4] ! 2) = Some ''weth''"
  using displaySymbol_renames_WETH_only
    [of 0 "[sample_config ''0xA1'' 100, sample_config ''0xC3'' 7, sample_config ''0xF6'' 7]"
        "[''WETH'', ''SNX'', ''weth'']" "[wei 2000, wei 3, wei 4]"]
    displaySymbol_renames_WETH_only
    [of 1 "[sample_config ''0xA1'' 100, sample_config ''0xC3'' 7, sample_config ''0xF6'' 7]"
        "[''WETH'', ''SNX'', ''weth'']" "[wei 2000, wei 3, wei 4]"]
    displaySymbol_renames_WETH_only
    [of 2 "[sample_config ''0xA1'' 100, sample_config ''0xC3'' 7, sample_config ''0xF6'' 7]"
        "[''WETH'', ''SNX'', ''weth'']" "[wei 2000, wei 3, wei 4]"]
  by simp

section \<open>The price loader\<close>

text \<open>
  Claim C9. When every result of the price batch decodes to an integer, \<open>loadPrices\<close>
  returns, in order, these integers as fixed-point decimals with 18 implied decimal
  places: the scaled integer of each price is the decoded integer, and its decimal value
  is the decoded integer divided by \<open>10 ^ 18\<close>, as an exact rational number.
\<close>

theorem loadPrices_fixed_point:
  assumes "priceCalls cp tokenConfigs = Inr calls"
    and "callStatic_multicall cp calls = Inr rs"
    and "map (decodedPrice cp) rs = map (\<lambda>n. Inr (JBigNumber n)) ns"
  shows "\<exists>prices. loadPrices cp tokenConfigs = Inr prices
           \<and> map bn prices = ns \<and> map decimals prices = map (\<lambda>n. 18) ns
           \<and> map Wei_value prices = map (\<lambda>n. of_int n / 10 ^ 18) ns"
proof -
  have "loadPrices cp tokenConfigs = Inr (map wei ns)"
    using assms by (simp add: loadPrices_def and_then_Inr map_throwing_decodePrice)
  moreover have "map bn (map wei ns) = ns"
    by (simp add: wei_def comp_def)
  moreover have "map decimals (map wei ns) = map (\<lambda>n. 18) ns"
    by (simp add: wei_def comp_def)
  moreover have "map Wei_value (map wei ns) = map (\<lambda>n. of_int n / 10 ^ 18) ns"
    by (simp add: Wei_value_wei comp_def)
  ultimately show ?thesis by blast
qed

theorem loadPrices_fixed_point_witness:
  "\<exists>prices. loadPrices (sample_CoreProxy sample_raws)
               [sample_config ''0xA1'' 100, sample_config ''0xC3'' 100] = Inr prices
     \<and> map bn prices = [2000000000000000000000, 2500000000000000000]
     \<and> map decimals prices = [18, 18]
     \<and> map Wei_value prices = [2000, 5 / 2]"
proof -
  let ?cp = "sample_CoreProxy sample_raws"
  have c: "priceCalls ?cp [sample_config ''0xA1'' 100, sample_config ''0xC3'' 100]
             = Inr [''0xA1'', ''0xC3'']"
    by (simp add: priceCalls_def sample_defs)
  have r: "callStatic_multicall ?cp [''0xA1'', ''0xC3''] = Inr [''0xA1'', ''0xC3'']"
    by (simp add: sample_defs)
  have d: "map (decodedPrice ?cp) [''0xA1'', ''0xC3'']
             = map (\<lambda>n. Inr (JBigNumber n)) [2000000000000000000000, 2500000000000000000]"
    by (simp add: decodedPrice_def and_then_def js_index_def array_index_def sample_defs)
  show ?thesis
    using loadPrices_fixed_point [OF c r d] by simp
qed

section \<open>Failure of a fetch\<close>

text \<open>
  Claim C7. Once the configurations have been fetched, the load fails as a whole, with a
  thrown error in place of any list of records, in each of three cases: one raw
  configuration is refused by the configuration schema; one returned value of the symbol
  batch fails to decode to a string; one returned value of the price batch fails to decode
  to an integer. The query function of \<open>useCollateralTypes\<close> then fails too, with either
  value of its flag.
\<close>

theorem fetch_fails_as_a_whole:
  assumes "getCollateralConfigurations cp False = Inr raws"
    and "(\<exists>x\<in>set raws. isl (parse CollateralConfigurationSchema x))
       \<or> (\<exists>tcs calls res.
            map_throwing (parse CollateralConfigurationSchema) raws = Inr tcs
            \<and> symbolCalls erc tcs = Inr calls
            \<and> callStatic_aggregate mc calls = Inr res
            \<and> (\<exists>b\<in>set (returnData res). isl (decodeSymbol erc b)))
       \<or> (\<exists>tcs calls rs.
            map_throwing (parse CollateralConfigurationSchema) raws = Inr tcs
            \<and> priceCalls cp tcs = Inr calls
            \<and> callStatic_multicall cp calls = Inr rs
            \<and> (\<exists>b\<in>set rs. isl (decodePrice cp b)))"
  shows "isl (loadCollateralTypes erc race cp mc)
       \<and> isl (useCollateralTypes_queryFn erc race (Some cp) (Some mc) includeDelegationOff)"
proof -
  have "isl (loadCollateralTypes erc race cp mc)"
    using assms(2)
  proof (elim disjE)
    assume "\<exists>x\<in>set raws. isl (parse CollateralConfigurationSchema x)"
    then show ?thesis
      using isl_loadCollateralTypes_schema [OF assms(1)] by blast
  next
    assume "\<exists>tcs calls res.
            map_throwing (parse CollateralConfigurationSchema) raws = Inr tcs
            \<and> symbolCalls erc tcs = Inr calls
            \<and> callStatic_aggregate mc calls = Inr res
            \<and> (\<exists>b\<in>set (returnData res). isl (decodeSymbol erc b))"
    then obtain tcs calls res b
      where "map_throwing (parse CollateralConfigurationSchema) raws = Inr tcs"
        and "symbolCalls erc tcs = Inr calls" and "callStatic_aggregate mc calls = Inr res"
        and "b \<in> set (returnData res)" and "isl (decodeSymbol erc b)"
      by blast
    then show ?thesis
      using isl_loadCollateralTypes_batch [OF assms(1)] isl_loadSymbols by blast
  next
    assume "\<exists>tcs calls rs.
            map_throwing (parse CollateralConfigurationSchema) raws = Inr tcs
            \<and> priceCalls cp tcs = Inr calls
            \<and> callStatic_multicall cp calls = Inr rs
            \<and> (\<exists>b\<in>set rs. isl (decodePrice cp b))"
    then obtain tcs calls rs b
      where "map_throwing (parse CollateralConfigurationSchema) raws = Inr tcs"
        and "priceCalls cp tcs = Inr calls" and "callStatic_multicall cp calls = Inr rs"
        and "b \<in> set rs" and "isl (decodePrice cp b)"
      by blast
    then show ?thesis
      using isl_loadCollateralTypes_batch [OF assms(1)] isl_loadPrices by blast
  qed
  then show ?thesis
    by (simp add: isl_queryFn)
qed

theorem fetch_fails_as_a_whole_witness:
  "isl (loadCollateralTypes sample_ERC20Interface True
          (sample_CoreProxy [sample_raw ''0xA1'' 5, sample_raw ''B2'' 5]) sample_Multicall3)
   \<and> isl (useCollateralTypes_queryFn sample_ERC20Interface True
          (Some (sample_CoreProxy [sample_raw ''0xA1'' 5, sample_raw ''0xD4'' 5]))
          (Some sample_Multicall3) False)
   \<and> isl (useCollateralTypes_queryFn sample_ERC20Interface True
          (Some (sample_CoreProxy [sample_raw ''0xA1'' 5, sample_raw ''0xE5'' 5]))
          (Some sample_Multicall3) True)"
proof -
  let ?erc = sample_ERC20Interface and ?mc = sample_Multicall3
  let ?bad = "sample_raw ''B2'' 5"
  have schema: "isl (parse CollateralConfigurationSchema ?bad)"
    by (simp add: loader_defs sample_defs)
  have a: "isl (loadCollateralTypes ?erc True (sample_CoreProxy [sample_raw ''0xA1'' 5, ?bad]) ?mc)"
    using fetch_fails_as_a_whole
      [of "sample_CoreProxy [sample_raw ''0xA1'' 5, ?bad]" "[sample_raw ''0xA1'' 5, ?bad]"
          ?erc ?mc True False]
      schema
    by (simp add: sample_CoreProxy_def)
  let ?cpD = "sample_CoreProxy [sample_raw ''0xA1'' 5, sample_raw ''0xD4'' 5]"
  let ?tcD = "[sample_config ''0xA1'' 5, sample_config ''0xD4'' 5]"
  have pD: "map_throwing (parse CollateralConfigurationSchema)
              [sample_raw ''0xA1'' 5, sample_raw ''0xD4'' 5] = Inr ?tcD"
    by (simp add: loader_defs sample_defs)
  have cD: "symbolCalls ?erc ?tcD
              = Inr [\<lparr>target = ''0xA1'', callData = ''0x95d89b41''\<rparr>,
                     \<lparr>target = ''0xD4'', callData = ''0x95d89b41''\<rparr>]"
    by (simp add: loader_defs sample_defs)
  have rD: "callStatic_aggregate ?mc
              [\<lparr>target = ''0xA1'', callData = ''0x95d89b41''\<rparr>,
               \<lparr>target = ''0xD4'', callData = ''0x95d89b41''\<rparr>]
              = Inr \<lparr>blockNumber = 1, returnData = [''0xA1'', ''0xD4'']\<rparr>"
    by (simp add: sample_defs)
  have dD: "isl (decodeSymbol ?erc ''0xD4'')"
    by (simp add: loader_defs sample_defs)
  have b: "isl (useCollateralTypes_queryFn ?erc True (Some ?cpD) (Some ?mc) False)"
    using fetch_fails_as_a_whole
      [of ?cpD "[sample_raw ''0xA1'' 5, sample_raw ''0xD4'' 5]" ?erc ?mc True False]
      pD cD rD dD
    by (simp add: sample_CoreProxy_def)
  let ?cpE = "sample_CoreProxy [sample_raw ''0xA1'' 5, sample_raw ''0xE5'' 5]"
  let ?tcE = "[sample_config ''0xA1'' 5, sample_config ''0xE5'' 5]"
  have pE: "map_throwing (parse CollateralConfigurationSchema)
              [sample_raw ''0xA1'' 5, sample_raw ''0xE5'' 5] = Inr ?tcE"
    by (simp add: loader_defs sample_defs)
  have cE: "priceCalls ?cpE ?tcE = Inr [''0xA1'', ''0xE5'']"
    by (simp add: loader_defs sample_defs)
  have rE: "callStatic_multicall ?cpE [''0xA1'', ''0xE5''] = Inr [''0xA1'', ''0xE5'']"
    by (simp add: sample_defs)
  have dE: "isl (decodePrice ?cpE ''0xE5'')"
    by (simp add: loader_defs sample_defs)
  have c: "isl (useCollateralTypes_queryFn ?erc True (Some ?cpE) (Some ?mc) True)"
    using fetch_fails_as_a_whole
      [of ?cpE "[sample_raw ''0xA1'' 5, sample_raw ''0xE5'' 5]" ?erc ?mc True True]
      pE cE rE dE
    by (simp add: sample_CoreProxy_def)
  from a b c show ?thesis by simp
qed

section \<open>The default filter\<close>

text \<open>
  Claim C2. When the load gives a list of collateral types, the query function of
  \<open>useCollateralTypes\<close> with \<open>includeDelegationOff\<close> false returns a list that holds no
  record whose minimum delegation is \<open>MaxUint256\<close>, and with \<open>includeDelegationOff\<close>
  true it returns the loaded list as it is.
\<close>

theorem default_filter_drops_delegation_off:
  assumes "loadCollateralTypes erc race cp mc = Inr cts"
  shows "(\<exists>out. useCollateralTypes_queryFn erc race (Some cp) (Some mc) False = Inr out
            \<and> (\<forall>x. bn (minDelegationD18 x) = MaxUint256 \<longrightarrow> x \<notin> set out))
       \<and> useCollateralTypes_queryFn erc race (Some cp) (Some mc) True = Inr cts"
  using assms by (simp add: queryFn_loaded delegationOn_def Wei_lt_def)

theorem default_filter_drops_delegation_off_witness:
  "(\<exists>out. useCollateralTypes_queryFn sample_ERC20Interface True
             (Some (sample_CoreProxy sample_raws)) (Some sample_Multicall3) False = Inr out
        \<and> (sample_type ''SNX'' MaxUint256)
             \<lparr>tokenAddress := ''0xC3'', price := Some (wei 2500000000000000000)\<rparr> \<notin> set out)
   \<and> useCollateralTypes_queryFn sample_ERC20Interface True
        (Some (sample_CoreProxy sample_raws)) (Some sample_Multicall3) True
       = Inr [(sample_type ''WETH'' 100)
                \<lparr>displaySymbol := Some ''ETH'', price := Some (wei 2000000000000000000000)\<rparr>,
              (sample_type ''sUSD'' 100)\<lparr>tokenAddress := ''0xB2''\<rparr>,
              (sample_type ''SNX'' MaxUint256)
                \<lparr>tokenAddress := ''0xC3'', price := Some (wei 2500000000000000000)\<rparr>]"
proof -
  have off: "bn (minDelegationD18 ((sample_type ''SNX'' MaxUint256)
               \<lparr>tokenAddress := ''0xC3'', price := Some (wei 2500000000000000000)\<rparr>)) = MaxUint256"
    by (simp add: sample_type_def wei_def)
  show ?thesis
    using default_filter_drops_delegation_off [OF sample_loaded_types [of True]] off
    by blast
qed

text \<open>
  Claim C8. When the load gives a list of collateral types, the query function of
  \<open>useCollateralTypes\<close> with \<open>includeDelegationOff\<close> false returns a list that holds no
  record whose symbol is exactly \<^verbatim>\<open>sUSD\<close> or exactly \<^verbatim>\<open>snxUSD\<close>, whatever its
  minimum delegation; with \<open>includeDelegationOff\<close> true the loaded list is returned as it
  is, these records included.
\<close>

theorem default_filter_drops_sUSD_and_snxUSD:
  assumes "loadCollateralTypes erc race cp mc = Inr cts"
  shows "(\<exists>out. useCollateralTypes_queryFn erc race (Some cp) (Some mc) False = Inr out
            \<and> (\<forall>x. symbol x = Some ''sUSD'' \<or> symbol x = Some ''snxUSD'' \<longrightarrow> x \<notin> set out))
       \<and> useCollateralTypes_queryFn erc race (Some cp) (Some mc) True = Inr cts"
  using assms by (simp add: queryFn_loaded delegationOn_def)

theorem default_filter_drops_sUSD_and_snxUSD_witness:
  "(\<exists>out. useCollateralTypes_queryFn sample_ERC20Interface True
             (Some (sample_CoreProxy sample_raws)) (Some sample_Multicall3) False = Inr out
        \<and> (sample_type ''sUSD'' 100)\<lparr>tokenAddress := ''0xB2''\<rparr> \<notin> set out)
   \<and> useCollateralTypes_queryFn sample_ERC20Interface True
        (Some (sample_CoreProxy sample_raws)) (Some sample_Multicall3) True
       = Inr [(sample_type ''WETH'' 100)
                \<lparr>displaySymbol := Some ''ETH'', price := Some (wei 2000000000000000000000)\<rparr>,
              (sample_type ''sUSD'' 100)\<lparr>tokenAddress := ''0xB2''\<rparr>,
              (sample_type ''SNX'' MaxUint256)
                \<lparr>tokenAddress := ''0xC3'', price := Some (wei 2500000000000000000)\<rparr>]"
proof -
  have name: "symbol ((sample_type ''sUSD'' 100)\<lparr>tokenAddress := ''0xB2''\<rparr>) = Some ''sUSD''"
    by (simp add: sample_type_def)
  show ?thesis
    using default_filter_drops_sUSD_and_snxUSD [OF sample_loaded_types [of True]] name
    by blast
qed

section \<open>The selector of one collateral type\<close>

text \<open>
  Claim C4. The selector of \<open>useCollateralType\<close> returns no record when there is no
  collection or the collection is empty. On a non-empty collection it returns the first
  record when no input symbol is given (the empty string counts as none); when a
  non-empty input symbol is given it returns a record exactly when that record is the
  first one whose symbol equals the input up to the case of the letters, and it returns no
  record exactly when no record's symbol does.
\<close>

theorem useCollateralType_selects:
  "useCollateralType_data None cs = None
   \<and> useCollateralType_data (Some []) cs = None
   \<and> (cts \<noteq> [] \<longrightarrow> useCollateralType_data (Some cts) None = Some (cts ! 0))
   \<and> (cts \<noteq> [] \<longrightarrow> useCollateralType_data (Some cts) (Some []) = Some (cts ! 0))
   \<and> (cts \<noteq> [] \<and> s \<noteq> [] \<longrightarrow>
        (useCollateralType_data (Some cts) (Some s) = Some r
           \<longleftrightarrow> (\<exists>i<length cts. cts ! i = r
                  \<and> equal_ignoring_case (template_literal (symbol r)) s
                  \<and> (\<forall>j<i. \<not> equal_ignoring_case (template_literal (symbol (cts ! j))) s))))
   \<and> (cts \<noteq> [] \<and> s \<noteq> [] \<longrightarrow>
        (useCollateralType_data (Some cts) (Some s) = None
           \<longleftrightarrow> (\<forall>x\<in>set cts. \<not> equal_ignoring_case (template_literal (symbol x)) s)))"
proof -
  have "useCollateralType_data None cs = None" "useCollateralType_data (Some []) cs = None"
    by (simp_all add: useCollateralType_data_def)
  moreover have "cts \<noteq> [] \<longrightarrow> useCollateralType_data (Some cts) None = Some (cts ! 0)"
    by (simp add: selector_falsy falsy_def)
  moreover have "cts \<noteq> [] \<longrightarrow> useCollateralType_data (Some cts) (Some []) = Some (cts ! 0)"
    by (simp add: selector_falsy falsy_def)
  moreover have "cts \<noteq> [] \<and> s \<noteq> [] \<longrightarrow>
        (useCollateralType_data (Some cts) (Some s) = Some r
           \<longleftrightarrow> (\<exists>i<length cts. cts ! i = r
                  \<and> equal_ignoring_case (template_literal (symbol r)) s
                  \<and> (\<forall>j<i. \<not> equal_ignoring_case (template_literal (symbol (cts ! j))) s)))"
    by (auto simp add: selector_nonfalsy find_Some_iff)
  moreover have "cts \<noteq> [] \<and> s \<noteq> [] \<longrightarrow>
        (useCollateralType_data (Some cts) (Some s) = None
           \<longleftrightarrow> (\<forall>x\<in>set cts. \<not> equal_ignoring_case (template_literal (symbol x)) s))"
    by (auto simp add: selector_nonfalsy find_None_iff)
  ultimately show ?thesis by blast
qed

theorem useCollateralType_selects_witness:
  "useCollateralType_data (Some [sample_type ''WETH'' 1, sample_type ''snx'' 2]) (Some ''SnX'')
     = Some (sample_type ''snx'' 2)
   \<and> useCollateralType_data (Some [sample_type ''WETH'' 1, sample_type ''snx'' 2]) None
     = Some (sample_type ''WETH'' 1)
   \<and> useCollateralType_data (Some []) (Some ''SnX'') = None"
proof -
  let ?cts = "[sample_type ''WETH'' 1, sample_type ''snx'' 2]"
  have "(1::nat) < length ?cts \<and> ?cts ! 1 = sample_type ''snx'' 2
        \<and> equal_ignoring_case (template_literal (symbol (sample_type ''snx'' 2))) ''SnX''
        \<and> (\<forall>j<1. \<not> equal_ignoring_case (template_literal (symbol (?cts ! j))) ''SnX'')"
    by (simp add: sample_names)
  then have first: "\<exists>i<length ?cts. ?cts ! i = sample_type ''snx'' 2
        \<and> equal_ignoring_case (template_literal (symbol (sample_type ''snx'' 2))) ''SnX''
        \<and> (\<forall>j<i. \<not> equal_ignoring_case (template_literal (symbol (?cts ! j))) ''SnX'')"
    by blast
  have ne: "?cts \<noteq> [] \<and> ''SnX'' \<noteq> []" by simp
  show ?thesis
    using useCollateralType_selects [of "Some ''SnX''" ?cts "''SnX''" "sample_type ''snx'' 2"]
      first ne
    by simp
qed

text \<open>
  Claim C5, as stated, says that on a non-empty collection the selector returns some
  record for every input symbol, the first record when no symbol matches. It does not:
  for a collection holding \<^verbatim>\<open>WETH\<close> and \<^verbatim>\<open>SNX\<close> and the input symbol \<^verbatim>\<open>DAI\<close> the
  selector returns no record.
\<close>

theorem useCollateralType_no_match_counterexample:
  "useCollateralType_data (Some [sample_type ''WETH'' 100, sample_type ''SNX'' 100]) (Some ''DAI'')
     = None"
  by (simp add: useCollateralType_data_def falsy_def template_literal_def toLowerCase_def
      toLowerCase_char_def sample_type_def char_of_eq_iff)

text \<open>
  Claim C5, amended. On a non-empty collection the selector returns the first record when
  the input symbol is absent or empty. For a non-empty input symbol it returns the first
  record, in the order of the collection, whose symbol equals the input up to the case of
  the letters: the record at an index is returned when it matches and no record before it
  does, so whenever some record matches the result is the match of least index; when no
  record matches, no record is returned.
\<close>

theorem useCollateralType_match_or_nothing:
  assumes "cts \<noteq> []"
  shows "(falsy cs \<longrightarrow> useCollateralType_data (Some cts) cs = Some (cts ! 0))
       \<and> (s \<noteq> [] \<and> i < length cts
            \<and> equal_ignoring_case (template_literal (symbol (cts ! i))) s
            \<and> (\<forall>j<i. \<not> equal_ignoring_case (template_literal (symbol (cts ! j))) s) \<longrightarrow>
            useCollateralType_data (Some cts) (Some s) = Some (cts ! i))
       \<and> (s \<noteq> [] \<and> (\<exists>x\<in>set cts. equal_ignoring_case (template_literal (symbol x)) s) \<longrightarrow>
            (\<exists>k<length cts. useCollateralType_data (Some cts) (Some s) = Some (cts ! k)
               \<and> equal_ignoring_case (template_literal (symbol (cts ! k))) s
               \<and> (\<forall>j<k. \<not> equal_ignoring_case (template_literal (symbol (cts ! j))) s)))
       \<and> (s \<noteq> [] \<and> (\<forall>x\<in>set cts. \<not> equal_ignoring_case (template_literal (symbol x)) s) \<longrightarrow>
            useCollateralType_data (Some cts) (Some s) = None)"
proof -
  let ?P = "\<lambda>c. equal_ignoring_case (template_literal (symbol c)) s"
  have "falsy cs \<longrightarrow> useCollateralType_data (Some cts) cs = Some (cts ! 0)"
    using assms by (simp add: selector_falsy)
  moreover have "s \<noteq> [] \<and> i < length cts \<and> ?P (cts ! i) \<and> (\<forall>j<i. \<not> ?P (cts ! j)) \<longrightarrow>
            useCollateralType_data (Some cts) (Some s) = Some (cts ! i)"
  proof
    assume a: "s \<noteq> [] \<and> i < length cts \<and> ?P (cts ! i) \<and> (\<forall>j<i. \<not> ?P (cts ! j))"
    then have "find ?P cts = Some (cts ! i)"
      unfolding find_Some_iff by blast
    with a assms show "useCollateralType_data (Some cts) (Some s) = Some (cts ! i)"
      by (simp add: selector_nonfalsy)
  qed
  moreover have "s \<noteq> [] \<and> (\<exists>x\<in>set cts. ?P x) \<longrightarrow>
            (\<exists>k<length cts. useCollateralType_data (Some cts) (Some s) = Some (cts ! k)
               \<and> ?P (cts ! k) \<and> (\<forall>j<k. \<not> ?P (cts ! j)))"
  proof
    assume a: "s \<noteq> [] \<and> (\<exists>x\<in>set cts. ?P x)"
    then have "find ?P cts \<noteq> None"
      by (auto simp add: find_None_iff)
    then obtain r where r: "find ?P cts = Some r"
      by blast
    then obtain k where k: "k < length cts" "?P (cts ! k)" "r = cts ! k" "\<forall>j<k. \<not> ?P (cts ! j)"
      unfolding find_Some_iff by blast
    have "useCollateralType_data (Some cts) (Some s) = Some (cts ! k)"
      using a assms r k(3) by (simp add: selector_nonfalsy)
    with k show "\<exists>k<length cts. useCollateralType_data (Some cts) (Some s) = Some (cts ! k)
               \<and> ?P (cts ! k) \<and> (\<forall>j<k. \<not> ?P (cts ! j))"
      by blast
  qed
  moreover have "s \<noteq> [] \<and> (\<forall>x\<in>set cts. \<not> ?P x) \<longrightarrow>
            useCollateralType_data (Some cts) (Some s) = None"
    using assms by (auto simp add: selector_nonfalsy find_None_iff)
  ultimately show ?thesis by blast
qed

theorem useCollateralType_match_or_nothing_witness:
  "useCollateralType_data
     (Some [sample_type ''WETH'' 1, sample_type ''snx'' 2, sample_type ''SNX'' 3]) (Some '''')
     = Some (sample_type ''WETH'' 1)
   \<and> useCollateralType_data
       (Some [sample_type ''WETH'' 1, sample_type ''snx'' 2, sample_type ''SNX'' 3]) (Some ''SnX'')
     = Some (sample_type ''snx'' 2)
   \<and> equal_ignoring_case (template_literal (symbol (sample_type ''SNX'' 3))) ''SnX''
   \<and> useCollateralType_data
       (Some [sample_type ''WETH'' 1, sample_type ''snx'' 2, sample_type ''SNX'' 3]) (Some ''DAI'')
     = None"
proof -
  let ?cts = "[sample_type ''WETH'' 1, sample_type ''snx'' 2, sample_type ''SNX'' 3]"
  have ne: "?cts \<noteq> []" by simp
  have f: "falsy (Some '''')" by (simp add: falsy_def)
  have a: "useCollateralType_data (Some ?cts) (Some '''') = Some (sample_type ''WETH'' 1)"
    using useCollateralType_match_or_nothing [OF ne, of "Some ''''" "''SnX''" 1] f by simp
  have "''SnX'' \<noteq> [] \<and> (1::nat) < length ?cts
        \<and> equal_ignoring_case (template_literal (symbol (?cts ! 1))) ''SnX''
        \<and> (\<forall>j<1. \<not> equal_ignoring_case (template_literal (symbol (?cts ! j))) ''SnX'')"
    by (simp add: sample_names)
  then have "useCollateralType_data (Some ?cts) (Some ''SnX'') = Some (?cts ! 1)"
    using useCollateralType_match_or_nothing [OF ne, of "Some ''''" "''SnX''" 1] by blast
  then have b: "useCollateralType_data (Some ?cts) (Some ''SnX'') = Some (sample_type ''snx'' 2)"
    by simp
  have "''DAI'' \<noteq> []
        \<and> (\<forall>x\<in>set ?cts. \<not> equal_ignoring_case (template_literal (symbol x)) ''DAI'')"
    by (simp add: sample_names sample_names_more)
  then have c: "useCollateralType_data (Some ?cts) (Some ''DAI'') = None"
    using useCollateralType_match_or_nothing [OF ne, of "Some ''''" "''DAI''" 0] by blast
  from a b c sample_names_more(2) show ?thesis by blast
qed

end
